theory Spec2Isabelle
  imports Main "HOL-Library.Char_ord" "HOL-Library.List_Lexorder" "HOL-Library.Product_Lexorder"
begin

section \<open>Values\<close>

text \<open>
  The admin backend is an Express application over one SQLite database
  (\<^verbatim>\<open>backend/server.js\<close>). Two kinds of values occur: JavaScript values, as they
  arrive in a JSON request body and leave in a JSON response, and SQLite values, as they are
  bound to a statement and stored in a cell.

  A \<open>jsval\<close> is a value as a handler sees it, after \<^verbatim>\<open>express.json()\<close> has parsed the
  body: \<open>JNum n\<close> is the JavaScript number \<open>n\<close>. Numbers are integers in this development
  (a number with a fraction is outside it), and a string is a list of bytes.
\<close>

datatype jsval =
    JUndefined
  | JNull
  | JBool bool
  | JNum int
  | JStr string
  | JArr "jsval list"
  | JObj "(string \<times> jsval) list"

text \<open>JavaScript truthiness, as \<^verbatim>\<open>if (x)\<close>, \<^verbatim>\<open>!x\<close>, \<^verbatim>\<open>a && b\<close> and \<^verbatim>\<open>a || b\<close> test it.\<close>

fun js_truthy :: "jsval \<Rightarrow> bool" where
  "js_truthy JUndefined = False"
| "js_truthy JNull = False"
| "js_truthy (JBool b) = b"
| "js_truthy (JNum n) = (n \<noteq> 0)"
| "js_truthy (JStr s) = (s \<noteq> [])"
| "js_truthy (JArr xs) = True"
| "js_truthy (JObj kvs) = True"



text \<open>Decimal digits of a natural number, as a template literal prints a length.\<close>

definition digit_char :: "nat \<Rightarrow> char" where
  "digit_char d = char_of (48 + d)"

function show_nat :: "nat \<Rightarrow> string" where
  "show_nat n = (if n < 10 then [digit_char n] else show_nat (n div 10) @ [digit_char (n mod 10)])"
  by pat_completeness auto
termination
  by (relation "measure (\<lambda>n. n)") auto

declare show_nat.simps [simp del]

definition show_int :: "int \<Rightarrow> string" where
  "show_int i = (if i < 0 then CHR ''-'' # show_nat (nat (- i)) else show_nat (nat i))"

fun join_with :: "string \<Rightarrow> string list \<Rightarrow> string" where
  "join_with sep [] = []"
| "join_with sep [x] = x"
| "join_with sep (x # y # ys) = x @ sep @ join_with sep (y # ys)"

text \<open>\<^verbatim>\<open>String(x)\<close>: an array prints its elements joined by commas, with nothing for
  \<^verbatim>\<open>null\<close> and \<^verbatim>\<open>undefined\<close>; a plain object prints as \<^verbatim>\<open>[object Object]\<close>.\<close>

fun js_toString :: "jsval \<Rightarrow> string" where
  "js_toString JUndefined = ''undefined''"
| "js_toString JNull = ''null''"
| "js_toString (JBool b) = (if b then ''true'' else ''false'')"
| "js_toString (JNum n) = show_int n"
| "js_toString (JStr s) = s"
| "js_toString (JArr xs) =
     join_with '','' (map (\<lambda>x. if x = JUndefined \<or> x = JNull then [] else js_toString x) xs)"
| "js_toString (JObj kvs) = ''[object Object]''"

datatype sqlval = SNull | SInt int | SText string

text \<open>
  How the driver binds a JavaScript value to a \<^verbatim>\<open>?\<close> placeholder: a string as text, a
  number as a number, a boolean as 0 or 1, \<^verbatim>\<open>null\<close> as NULL; \<^verbatim>\<open>undefined\<close> leaves
  the placeholder unbound, which SQLite reads as NULL; an array or any other object is bound as
  the text \<^verbatim>\<open>[object Object]\<close>.
\<close>

fun bind_param :: "jsval \<Rightarrow> sqlval" where
  "bind_param JUndefined = SNull"
| "bind_param JNull = SNull"
| "bind_param (JBool b) = SInt (if b then 1 else 0)"
| "bind_param (JNum n) = SInt n"
| "bind_param (JStr s) = SText s"
| "bind_param (JArr xs) = SText ''[object Object]''"
| "bind_param (JObj kvs) = SText ''[object Object]''"

text \<open>How the driver hands a cell back in a result row.\<close>

fun to_js :: "sqlval \<Rightarrow> jsval" where
  "to_js SNull = JNull"
| "to_js (SInt n) = JNum n"
| "to_js (SText s) = JStr s"

section \<open>The database\<close>

text \<open>
  The tables, as \<^verbatim>\<open>CREATE TABLE\<close> declares them. A row is a record of cells; the
  \<^verbatim>\<open>id\<close> of a table is its \<^verbatim>\<open>INTEGER PRIMARY KEY\<close>. A cell holds the value that was
  bound to it. SQLite goes on to convert the value to the affinity of the column (a number to
  text in a \<^verbatim>\<open>TEXT\<close> column, text that reads as a number to that number in the others);
  this conversion is not modelled, and the theorems on the handlers that write say of a written
  cell only what the conversion leaves alone: that the statement assigns it, that it holds the
  time stamp, that it holds the number 0, or the path of an uploaded file.

  The \<^verbatim>\<open>platforms\<close> cell of a creator is a type parameter: it is a \<open>sqlval\<close> in the table
  and a \<open>jsval\<close> in a row that a handler has fetched and is about to send.
\<close>

record 'p creator =
  id_c :: int
  display_name :: sqlval
  description :: sqlval
  avatar_url :: sqlval
  status :: sqlval
  is_featured :: sqlval
  is_paid_member :: sqlval
  featured_priority :: sqlval
  platforms :: 'p
  viewers :: sqlval
  last_live_start :: sqlval
  last_seen :: sqlval
  created_at :: sqlval
  updated_at :: sqlval

record subscription =
  id_s :: int
  creator_id_s :: sqlval
  stripe_subscription_id :: sqlval
  stripe_customer_id :: sqlval
  status_s :: sqlval
  plan_type :: sqlval
  amount :: sqlval
  currency :: sqlval
  current_period_start :: sqlval
  current_period_end :: sqlval
  created_at_s :: sqlval

record analytics_event =
  id_a :: int
  event_type :: sqlval
  event_data :: sqlval
  creator_id_a :: sqlval
  timestamp :: sqlval

record store =
  creators :: "sqlval creator list"
  subscriptions :: "subscription list"
  analytics :: "analytics_event list"

text \<open>The column names of the two tables the subscription query joins.\<close>

definition creators_columns :: "string list" where
  "creators_columns =
     [''id'', ''display_name'', ''description'', ''avatar_url'', ''status'', ''is_featured'',
      ''is_paid_member'', ''featured_priority'', ''platforms'', ''viewers'', ''last_live_start'',
      ''last_seen'', ''created_at'', ''updated_at'']"

definition subscriptions_columns :: "string list" where
  "subscriptions_columns =
     [''id'', ''creator_id'', ''stripe_subscription_id'', ''stripe_customer_id'', ''status'',
      ''plan_type'', ''amount'', ''currency'', ''current_period_start'', ''current_period_end'',
      ''created_at'']"

definition creator_column :: "string \<Rightarrow> sqlval creator \<Rightarrow> sqlval" where
  "creator_column name r =
     (if name = ''id'' then SInt (id_c r)
      else if name = ''display_name'' then display_name r
      else if name = ''description'' then description r
      else if name = ''avatar_url'' then avatar_url r
      else if name = ''status'' then status r
      else if name = ''is_featured'' then is_featured r
      else if name = ''is_paid_member'' then is_paid_member r
      else if name = ''featured_priority'' then featured_priority r
      else if name = ''platforms'' then platforms r
      else if name = ''viewers'' then viewers r
      else if name = ''last_live_start'' then last_live_start r
      else if name = ''last_seen'' then last_seen r
      else if name = ''created_at'' then created_at r
      else if name = ''updated_at'' then updated_at r
      else SNull)"

text \<open>
  What a statement can fail with: SQLite rejects the statement itself (a name it cannot
  resolve), a row violates a constraint of the schema, or the storage fails underneath. The last
  is an input of every database call below, the flag \<open>fault\<close>.
\<close>

datatype db_error = SQLITE_ERROR string | SQLITE_CONSTRAINT string | SQLITE_IOERR

subsection \<open>UPDATE creators SET ... WHERE id = ?\<close>

text \<open>
  The handlers build the \<^verbatim>\<open>SET\<close> list clause by clause, pushing the value of each
  \<^verbatim>\<open>?\<close> onto \<^verbatim>\<open>params\<close> as they go; a clause is kept here together with its value.
\<close>

datatype creator_col =
    Display_name | Description | Avatar_url | Status | Is_featured | Is_paid_member
  | Featured_priority | Platforms | Viewers | Last_live_start | Last_seen | Updated_at

datatype set_expr = Param sqlval | CURRENT_TIMESTAMP

type_synonym set_clause = "creator_col \<times> set_expr"

text \<open>\<open>now\<close> is the text \<^verbatim>\<open>CURRENT_TIMESTAMP\<close> evaluates to while the statement runs.\<close>

fun eval_expr :: "string \<Rightarrow> set_expr \<Rightarrow> sqlval" where
  "eval_expr now (Param v) = v"
| "eval_expr now CURRENT_TIMESTAMP = SText now"

fun assign :: "creator_col \<Rightarrow> sqlval \<Rightarrow> sqlval creator \<Rightarrow> sqlval creator" where
  "assign Display_name v r = r\<lparr>display_name := v\<rparr>"
| "assign Description v r = r\<lparr>description := v\<rparr>"
| "assign Avatar_url v r = r\<lparr>avatar_url := v\<rparr>"
| "assign Status v r = r\<lparr>status := v\<rparr>"
| "assign Is_featured v r = r\<lparr>is_featured := v\<rparr>"
| "assign Is_paid_member v r = r\<lparr>is_paid_member := v\<rparr>"
| "assign Featured_priority v r = r\<lparr>featured_priority := v\<rparr>"
| "assign Platforms v r = r\<lparr>platforms := v\<rparr>"
| "assign Viewers v r = r\<lparr>viewers := v\<rparr>"
| "assign Last_live_start v r = r\<lparr>last_live_start := v\<rparr>"
| "assign Last_seen v r = r\<lparr>last_seen := v\<rparr>"
| "assign Updated_at v r = r\<lparr>updated_at := v\<rparr>"

fun apply_sets :: "string \<Rightarrow> set_clause list \<Rightarrow> sqlval creator \<Rightarrow> sqlval creator" where
  "apply_sets now [] r = r"
| "apply_sets now ((c, e) # sets) r = apply_sets now sets (assign c (eval_expr now e) r)"

text \<open>
  \<^verbatim>\<open>display_name TEXT NOT NULL\<close> is the one constraint an update of these columns can
  violate. A violation aborts the statement and no row changes.
\<close>

definition violates_not_null :: "sqlval creator \<Rightarrow> bool" where
  "violates_not_null r = (display_name r = SNull)"

definition exec_update ::
  "string \<Rightarrow> set_clause list \<Rightarrow> int \<Rightarrow> sqlval creator list \<Rightarrow> db_error + nat \<times> sqlval creator list" where
  "exec_update now sets i rows =
     (let matched = filter (\<lambda>r. id_c r = i) rows;
          updated = map (apply_sets now sets) matched
      in if Display_name \<in> set (map fst sets) \<and> list_ex violates_not_null updated
         then Inl (SQLITE_CONSTRAINT ''NOT NULL constraint failed: creators.display_name'')
         else Inr (length matched,
                   map (\<lambda>r. if id_c r = i then apply_sets now sets r else r) rows))"

text \<open>
  \<^verbatim>\<open>db.run(query, params, callback)\<close> for such a statement: the error or
  \<^verbatim>\<open>this.changes\<close>, and the store afterwards.
\<close>

definition db_run_update ::
  "bool \<Rightarrow> string \<Rightarrow> set_clause list \<Rightarrow> int \<Rightarrow> store \<Rightarrow> (db_error + nat) \<times> store" where
  "db_run_update fault now sets i s =
     (if fault then (Inl SQLITE_IOERR, s)
      else (case exec_update now sets i (creators s) of
              Inl e \<Rightarrow> (Inl e, s)
            | Inr (changes, rows) \<Rightarrow> (Inr changes, s\<lparr>creators := rows\<rparr>)))"

subsection \<open>INSERT INTO analytics\<close>

text \<open>
  The table is \<^verbatim>\<open>AUTOINCREMENT\<close> and no statement of the backend deletes from it: a new row
  gets the largest id so far plus one.
\<close>

definition next_id_a :: "analytics_event list \<Rightarrow> int" where
  "next_id_a evs = foldr max (map id_a evs) 0 + 1"

definition db_run_insert_analytics ::
  "bool \<Rightarrow> string \<Rightarrow> sqlval \<Rightarrow> sqlval \<Rightarrow> sqlval \<Rightarrow> store \<Rightarrow> (db_error + nat) \<times> store" where
  "db_run_insert_analytics fault now etype edata creator s =
     (if fault then (Inl SQLITE_IOERR, s)
      else if etype = SNull
      then (Inl (SQLITE_CONSTRAINT ''NOT NULL constraint failed: analytics.event_type''), s)
      else (Inr 1,
            s\<lparr>analytics := analytics s @
                 [\<lparr>id_a = next_id_a (analytics s), event_type = etype, event_data = edata,
                   creator_id_a = creator, timestamp = SText now\<rparr>]\<rparr>))"

subsection \<open>SELECT\<close>

text \<open>\<^verbatim>\<open>SELECT * FROM creators WHERE id = ?\<close> through \<^verbatim>\<open>db.get\<close>: the first row, if any.\<close>

definition db_get_creator :: "bool \<Rightarrow> int \<Rightarrow> store \<Rightarrow> db_error + sqlval creator option" where
  "db_get_creator fault i s =
     (if fault then Inl SQLITE_IOERR else Inr (find (\<lambda>r. id_c r = i) (creators s)))"

text \<open>
  The comparisons and aggregates the dashboard queries use. \<open>sql_equals a b\<close> is "\<open>a = b\<close> is
  true" and \<open>sql_greater a b\<close> is "\<open>a > b\<close> is true": a comparison with NULL is not true, a
  number sorts before any text, and text compares byte by byte.
\<close>

text \<open>The order of \<^verbatim>\<open>ORDER BY\<close> and of the groups of \<^verbatim>\<open>GROUP BY\<close>, as a sort key.\<close>

definition sql_key :: "sqlval \<Rightarrow> nat \<times> int \<times> string" where
  "sql_key v = (case v of SNull \<Rightarrow> (0, 0, []) | SInt n \<Rightarrow> (1, n, []) | SText t \<Rightarrow> (2, 0, t))"

definition sql_equals :: "sqlval \<Rightarrow> sqlval \<Rightarrow> bool" where
  "sql_equals a b = (a \<noteq> SNull \<and> b \<noteq> SNull \<and> a = b)"

fun sql_greater :: "sqlval \<Rightarrow> sqlval \<Rightarrow> bool" where
  "sql_greater (SInt a) (SInt b) = (b < a)"
| "sql_greater (SText a) (SInt b) = True"
| "sql_greater (SText a) (SText b) = (b < a)"
| "sql_greater a b = False"

text \<open>
  The number a cell counts as in \<^verbatim>\<open>SUM\<close>: text counts as the integer it starts with (after
  blanks and a sign), and as 0 when it starts with none. Text that goes on with a fraction or
  an exponent counts in SQLite as that number; like every number with a fraction, it is outside
  this development.
\<close>

definition is_digit :: "char \<Rightarrow> bool" where
  "is_digit c = (CHR ''0'' \<le> c \<and> c \<le> CHR ''9'')"

fun digits_value :: "nat \<Rightarrow> string \<Rightarrow> nat" where
  "digits_value acc [] = acc"
| "digits_value acc (c # cs) =
     (if is_digit c then digits_value (10 * acc + (of_char c - 48)) cs else acc)"

definition text_numeric :: "string \<Rightarrow> int" where
  "text_numeric s =
     (case dropWhile (\<lambda>c. c = CHR '' '') s of
        [] \<Rightarrow> 0
      | c # cs \<Rightarrow>
          if c = CHR ''-'' then - int (digits_value 0 cs)
          else if c = CHR ''+'' then int (digits_value 0 cs)
          else int (digits_value 0 (c # cs)))"

fun sql_numeric :: "sqlval \<Rightarrow> int" where
  "sql_numeric SNull = 0"
| "sql_numeric (SInt n) = n"
| "sql_numeric (SText s) = text_numeric s"

text \<open>\<^verbatim>\<open>SUM(x)\<close> skips NULLs, and is NULL when no row is left to add.\<close>

definition sql_sum :: "sqlval list \<Rightarrow> sqlval" where
  "sql_sum vs =
     (let xs = filter (\<lambda>v. v \<noteq> SNull) vs
      in if xs = [] then SNull else SInt (sum_list (map sql_numeric xs)))"

text \<open>\<^verbatim>\<open>COUNT(*)\<close>\<close>

definition sql_count :: "'a list \<Rightarrow> sqlval" where
  "sql_count rows = SInt (int (length rows))"

text \<open>\<^verbatim>\<open>CASE WHEN c THEN x ELSE 0 END\<close>\<close>

definition case_when :: "bool \<Rightarrow> sqlval \<Rightarrow> sqlval" where
  "case_when c x = (if c then x else SInt 0)"

record creator_stats =
  total_creators :: sqlval
  live_creators :: sqlval
  featured_creators :: sqlval
  paid_members :: sqlval
  total_viewers :: sqlval

record subscription_stats =
  total_subscriptions :: sqlval
  active_subscriptions :: sqlval
  monthly_revenue :: sqlval

definition db_get_creator_stats :: "bool \<Rightarrow> store \<Rightarrow> db_error + creator_stats" where
  "db_get_creator_stats fault s =
     (if fault then Inl SQLITE_IOERR
      else Inr \<lparr>total_creators = sql_count (creators s),
                live_creators =
                  sql_sum (map (\<lambda>r. case_when (sql_equals (status r) (SText ''live'')) (SInt 1))
                             (creators s)),
                featured_creators =
                  sql_sum (map (\<lambda>r. case_when (sql_equals (is_featured r) (SInt 1)) (SInt 1))
                             (creators s)),
                paid_members =
                  sql_sum (map (\<lambda>r. case_when (sql_equals (is_paid_member r) (SInt 1)) (SInt 1))
                             (creators s)),
                total_viewers = sql_sum (map viewers (creators s))\<rparr>)"

definition db_get_subscription_stats :: "bool \<Rightarrow> store \<Rightarrow> db_error + subscription_stats" where
  "db_get_subscription_stats fault s =
     (if fault then Inl SQLITE_IOERR
      else Inr \<lparr>total_subscriptions = sql_count (subscriptions s),
                active_subscriptions =
                  sql_sum (map (\<lambda>r. case_when (sql_equals (status_s r) (SText ''active'')) (SInt 1))
                             (subscriptions s)),
                monthly_revenue =
                  sql_sum (map (\<lambda>r. case_when (sql_equals (status_s r) (SText ''active'')) (amount r))
                             (subscriptions s))\<rparr>)"

text \<open>
  \<^verbatim>\<open>SELECT event_type, COUNT(*) ... WHERE timestamp > datetime('now', '-7 days') GROUP BY
  event_type\<close>; \<open>week_ago\<close> is the text \<^verbatim>\<open>datetime('now', '-7 days')\<close> evaluates to. One row
  per event type, in the order of the types.
\<close>

definition db_all_recent_activity ::
  "bool \<Rightarrow> string \<Rightarrow> store \<Rightarrow> db_error + (sqlval \<times> sqlval) list" where
  "db_all_recent_activity fault week_ago s =
     (if fault then Inl SQLITE_IOERR
      else (let recent = filter (\<lambda>e. sql_greater (timestamp e) (SText week_ago)) (analytics s)
            in Inr (map (\<lambda>t. (t, sql_count (filter (\<lambda>e. event_type e = t) recent)))
                      (sort_key sql_key (remdups (map event_type recent))))))"

text \<open>
  The subscription query,
  \<^verbatim>\<open>SELECT s.*, c.display_name, c.email FROM subscriptions s LEFT JOIN creators c
  ON s.creator_id = c.id ORDER BY s.created_at DESC\<close>. SQLite resolves every column the
  statement names against the schema when it prepares the statement, before it reads a row.
\<close>

definition subscriptions_query_select :: "(string \<times> string) list" where
  "subscriptions_query_select = [(''c'', ''display_name''), (''c'', ''email'')]"

definition subscriptions_query_refs :: "(string \<times> string) list" where
  "subscriptions_query_refs =
     subscriptions_query_select @ [(''s'', ''creator_id''), (''c'', ''id''), (''s'', ''created_at'')]"

definition alias_columns :: "string \<Rightarrow> string list" where
  "alias_columns a =
     (if a = ''s'' then subscriptions_columns else if a = ''c'' then creators_columns else [])"

definition prepare :: "(string \<times> string) list \<Rightarrow> db_error option" where
  "prepare refs =
     (case filter (\<lambda>(a, c). c \<notin> set (alias_columns a)) refs of
        [] \<Rightarrow> None
      | (a, c) # rest \<Rightarrow> Some (SQLITE_ERROR (''no such column: '' @ a @ ''.'' @ c)))"

record subscription_row =
  sub :: subscription
  joined :: "(string \<times> sqlval) list"

definition left_join :: "sqlval creator list \<Rightarrow> subscription \<Rightarrow> subscription_row list" where
  "left_join cs x =
     (case filter (\<lambda>c. sql_equals (creator_id_s x) (SInt (id_c c))) cs of
        [] \<Rightarrow> [\<lparr>sub = x, joined = map (\<lambda>(a, col). (col, SNull)) subscriptions_query_select\<rparr>]
      | m # ms \<Rightarrow>
          map (\<lambda>c. \<lparr>sub = x,
                    joined = map (\<lambda>(a, col). (col, creator_column col c)) subscriptions_query_select\<rparr>)
            (m # ms))"

definition db_all_subscriptions :: "bool \<Rightarrow> store \<Rightarrow> db_error + subscription_row list" where
  "db_all_subscriptions fault s =
     (if fault then Inl SQLITE_IOERR
      else (case prepare subscriptions_query_refs of
              Some e \<Rightarrow> Inl e
            | None \<Rightarrow>
                Inr (concat (map (left_join (creators s))
                       (rev (sort_key (\<lambda>x. sql_key (created_at_s x)) (subscriptions s)))))))"

section \<open>Requests and responses\<close>

text \<open>
  A creator row as a handler sends it: the cells as the driver returned them, with
  \<^verbatim>\<open>platforms\<close> a JavaScript value the handler may have replaced.
\<close>

definition fetch_row :: "sqlval creator \<Rightarrow> jsval creator" where
  "fetch_row r =
     \<lparr>id_c = id_c r, display_name = display_name r, description = description r,
      avatar_url = avatar_url r, status = status r, is_featured = is_featured r,
      is_paid_member = is_paid_member r, featured_priority = featured_priority r,
      platforms = to_js (platforms r), viewers = viewers r,
      last_live_start = last_live_start r, last_seen = last_seen r,
      created_at = created_at r, updated_at = updated_at r\<rparr>"

record dashboard_stats =
  stats_creators :: creator_stats
  stats_subscriptions :: subscription_stats
  recent_activity :: "(sqlval \<times> sqlval) list"

text \<open>
  A response is the HTTP status and the JSON body. \<^verbatim>\<open>res.json(x)\<close> answers with status
  200; \<^verbatim>\<open>res.status(n).json({ error: msg })\<close> answers with status \<open>n\<close> and the body
  \<open>Error msg\<close>, \<^verbatim>\<open>res.json({ message: msg })\<close> with the body \<open>Message msg\<close>. When a
  handler throws, Express answers for it with status 500 and an error page, \<open>Error_page\<close> with
  the name of the exception.
\<close>

datatype body =
    Error string
  | Message string
  | Creator_list "jsval creator list"
  | Creator_row "jsval creator"
  | Subscription_list "subscription_row list"
  | Stats dashboard_stats
  | Error_page string

record response =
  http_status :: nat
  body :: body

definition fail_with :: "nat \<Rightarrow> string \<Rightarrow> response" where
  "fail_with n msg = \<lparr>http_status = n, body = Error msg\<rparr>"

definition json :: "body \<Rightarrow> response" where
  "json b = \<lparr>http_status = 200, body = b\<rparr>"

section \<open>Authentication middleware\<close>

text \<open>
  \<^verbatim>\<open>authHeader.split(' ')\<close>: the pieces between single spaces, empty pieces included.
\<close>

fun js_split :: "char \<Rightarrow> string \<Rightarrow> string list" where
  "js_split d [] = [[]]"
| "js_split d (c # cs) =
     (if c = d then [] # js_split d cs
      else (case js_split d cs of [] \<Rightarrow> [[c]] | w # ws \<Rightarrow> (c # w) # ws))"

text \<open>\<^verbatim>\<open>pieces[1]\<close>\<close>

fun second :: "string list \<Rightarrow> jsval" where
  "second (a # b # rest) = JStr b"
| "second pieces = JUndefined"

text \<open>The identity a verified token carries: what \<^verbatim>\<open>login\<close> signed into it.\<close>

record identity =
  user_id :: jsval
  username :: jsval
  role :: jsval

record request =
  authorization :: "string option"

text \<open>\<^verbatim>\<open>const token = authHeader && authHeader.split(' ')[1]\<close>\<close>

definition bearer_token :: "request \<Rightarrow> jsval" where
  "bearer_token req =
     (case authorization req of
        None \<Rightarrow> JUndefined
      | Some authHeader \<Rightarrow>
          if js_truthy (JStr authHeader) then second (js_split CHR '' '' authHeader)
          else JStr authHeader)"

text \<open>
  \<^verbatim>\<open>authenticateToken\<close>. The library call \<^verbatim>\<open>jwt.verify(token, JWT_SECRET, callback)\<close> is
  the parameter \<open>jwt_verify\<close>: \<open>None\<close> when it reports an error (a bad signature, an expired
  token), the decoded identity otherwise. \<open>Inl\<close> is the response that ends the request,
  \<open>Inr\<close> is \<^verbatim>\<open>next()\<close> with \<^verbatim>\<open>req.user\<close> set.
\<close>

definition authenticateToken ::
  "(string \<Rightarrow> identity option) \<Rightarrow> request \<Rightarrow> response + identity" where
  "authenticateToken jwt_verify req =
     (let token = bearer_token req in
      if \<not> js_truthy token then Inl (fail_with 401 ''Access token required'')
      else (case jwt_verify (js_toString token) of
              None \<Rightarrow> Inl (fail_with 403 ''Invalid or expired token'')
            | Some user \<Rightarrow> Inr user))"

text \<open>\<^verbatim>\<open>requireAdmin\<close>\<close>

definition requireAdmin :: "identity \<Rightarrow> response + identity" where
  "requireAdmin user =
     (if role user \<noteq> JStr ''admin'' \<and> role user \<noteq> JStr ''super_admin''
      then Inl (fail_with 403 ''Admin access required'')
      else Inr user)"

text \<open>The routes, and the middleware each is registered with.\<close>

datatype route =
    POST_auth_login
  | GET_auth_verify
  | GET_creators
  | GET_creator
  | POST_creators
  | PUT_creator
  | DELETE_creator
  | POST_creator_status
  | POST_creators_bulk_status
  | GET_subscriptions
  | GET_analytics_dashboard
  | GET_settings
  | PUT_settings
  | GET_export_creators

datatype gate = Open_route | Token_gated | Admin_gated

fun route_gate :: "route \<Rightarrow> gate" where
  "route_gate POST_auth_login = Open_route"
| "route_gate GET_auth_verify = Token_gated"
| "route_gate GET_creators = Token_gated"
| "route_gate GET_creator = Token_gated"
| "route_gate POST_creators = Admin_gated"
| "route_gate PUT_creator = Admin_gated"
| "route_gate DELETE_creator = Admin_gated"
| "route_gate POST_creator_status = Admin_gated"
| "route_gate POST_creators_bulk_status = Token_gated"
| "route_gate GET_subscriptions = Admin_gated"
| "route_gate GET_analytics_dashboard = Token_gated"
| "route_gate GET_settings = Admin_gated"
| "route_gate PUT_settings = Admin_gated"
| "route_gate GET_export_creators = Admin_gated"

text \<open>
  The middleware chain in front of a route's handler: \<open>Inl\<close> is the rejection, \<open>Inr\<close> the
  identity the handler runs with (none on the open route).
\<close>

definition run_gate ::
  "(string \<Rightarrow> identity option) \<Rightarrow> route \<Rightarrow> request \<Rightarrow> response + identity option" where
  "run_gate jwt_verify r req =
     (case route_gate r of
        Open_route \<Rightarrow> Inr None
      | Token_gated \<Rightarrow>
          (case authenticateToken jwt_verify req of
             Inl resp \<Rightarrow> Inl resp
           | Inr user \<Rightarrow> Inr (Some user))
      | Admin_gated \<Rightarrow>
          (case authenticateToken jwt_verify req of
             Inl resp \<Rightarrow> Inl resp
           | Inr user \<Rightarrow>
               (case requireAdmin user of
                  Inl resp \<Rightarrow> Inl resp
                | Inr admin \<Rightarrow> Inr (Some admin))))"

section \<open>Handlers\<close>

text \<open>
  A handler is modelled behind its middleware, from the request it reads to the response it
  sends, with the store before and after where it writes. The \<^verbatim>\<open>:id\<close> of a path is the
  integer it denotes. The library functions \<^verbatim>\<open>JSON.parse\<close> and \<^verbatim>\<open>JSON.stringify\<close> are
  parameters: \<open>JSON_parse\<close> gives \<open>None\<close> where the library throws.
\<close>

subsection \<open>Reading creators\<close>

text \<open>
  \<^verbatim>\<open>GET /api/creators\<close> replaces the \<^verbatim>\<open>platforms\<close> of every row, in the callback of its
  query:
  \<^verbatim>\<open>if (creator.platforms) { try { creator.platforms = JSON.parse(creator.platforms); }
  catch (e) { creator.platforms = []; } } else { creator.platforms = []; }\<close>
\<close>

definition parse_platforms_or_empty ::
  "(string \<Rightarrow> jsval option) \<Rightarrow> jsval creator \<Rightarrow> jsval creator" where
  "parse_platforms_or_empty JSON_parse creator =
     (if js_truthy (platforms creator)
      then (case JSON_parse (js_toString (platforms creator)) of
              Some v \<Rightarrow> creator\<lparr>platforms := v\<rparr>
            | None \<Rightarrow> creator\<lparr>platforms := JArr []\<rparr>)
      else creator\<lparr>platforms := JArr []\<rparr>)"

text \<open>
  \<^verbatim>\<open>GET /api/creators/:id\<close> and \<^verbatim>\<open>GET /api/export/creators\<close> do the same without the
  \<^verbatim>\<open>else\<close>.
\<close>

definition parse_platforms_if_set ::
  "(string \<Rightarrow> jsval option) \<Rightarrow> jsval creator \<Rightarrow> jsval creator" where
  "parse_platforms_if_set JSON_parse creator =
     (if js_truthy (platforms creator)
      then (case JSON_parse (js_toString (platforms creator)) of
              Some v \<Rightarrow> creator\<lparr>platforms := v\<rparr>
            | None \<Rightarrow> creator\<lparr>platforms := JArr []\<rparr>)
      else creator)"

text \<open>
  The callback of \<^verbatim>\<open>GET /api/creators\<close>, from the outcome of its \<^verbatim>\<open>db.all\<close>: the
  error, or the rows the filtered, ordered and paged query selected.
\<close>

definition get_creators ::
  "(string \<Rightarrow> jsval option) \<Rightarrow> db_error + sqlval creator list \<Rightarrow> response" where
  "get_creators JSON_parse outcome =
     (case outcome of
        Inl err \<Rightarrow> fail_with 500 ''Database error''
      | Inr rows \<Rightarrow>
          json (Creator_list (map (\<lambda>r. parse_platforms_or_empty JSON_parse (fetch_row r)) rows)))"

text \<open>The callback of \<^verbatim>\<open>GET /api/export/creators\<close>, likewise.\<close>

definition export_creators ::
  "(string \<Rightarrow> jsval option) \<Rightarrow> db_error + sqlval creator list \<Rightarrow> response" where
  "export_creators JSON_parse outcome =
     (case outcome of
        Inl err \<Rightarrow> fail_with 500 ''Database error''
      | Inr rows \<Rightarrow>
          json (Creator_list (map (\<lambda>r. parse_platforms_if_set JSON_parse (fetch_row r)) rows)))"

text \<open>\<^verbatim>\<open>GET /api/creators/:id\<close>\<close>

definition get_creator ::
  "(string \<Rightarrow> jsval option) \<Rightarrow> bool \<Rightarrow> int \<Rightarrow> store \<Rightarrow> response" where
  "get_creator JSON_parse fault i s =
     (case db_get_creator fault i s of
        Inl err \<Rightarrow> fail_with 500 ''Database error''
      | Inr None \<Rightarrow> fail_with 404 ''Creator not found''
      | Inr (Some r) \<Rightarrow> json (Creator_row (parse_platforms_if_set JSON_parse (fetch_row r))))"

subsection \<open>PUT /api/creators/:id\<close>




subsection \<open>POST /api/creators/:id/status\<close>

record status_fields =
  status_p :: jsval
  viewers_p :: jsval
  live_start :: jsval

definition post_creator_status_sets :: "status_fields \<Rightarrow> set_clause list" where
  "post_creator_status_sets b =
     [(Status, Param (bind_param (status_p b))), (Updated_at, CURRENT_TIMESTAMP)] @
     (if viewers_p b \<noteq> JUndefined
      then [(Viewers, Param (bind_param (viewers_p b)))] else []) @
     (if status_p b = JStr ''live'' \<and> js_truthy (live_start b)
      then [(Last_live_start, Param (bind_param (live_start b)))] else []) @
     (if status_p b \<noteq> JStr ''offline''
      then [(Last_seen, CURRENT_TIMESTAMP)] else [])"

text \<open>
  The callback of the update answers 500 on an error. Otherwise it starts the insert of the
  analytics event, with no callback, and answers. \<open>fault\<close> and \<open>fault'\<close> are the storage
  faults under the update and under the insert.
\<close>

definition post_creator_status ::
  "(jsval \<Rightarrow> string) \<Rightarrow> string \<Rightarrow> bool \<Rightarrow> bool \<Rightarrow> int \<Rightarrow> status_fields \<Rightarrow> store
     \<Rightarrow> response \<times> store" where
  "post_creator_status JSON_stringify now fault fault' i b s =
     (case db_run_update fault now (post_creator_status_sets b) i s of
        (Inl err, s') \<Rightarrow> (fail_with 500 ''Database error'', s')
      | (Inr changes, s') \<Rightarrow>
          (json (Message ''Status updated successfully''),
           snd (db_run_insert_analytics fault' now (SText ''status_change'')
                  (bind_param
                     (JStr (JSON_stringify
                              (JObj [(''status'', status_p b), (''viewers'', viewers_p b)]))))
                  (SInt i) s')))"

subsection \<open>POST /api/creators/bulk-status\<close>










subsection \<open>GET /api/subscriptions\<close>

definition get_subscriptions :: "bool \<Rightarrow> store \<Rightarrow> response" where
  "get_subscriptions fault s =
     (case db_all_subscriptions fault s of
        Inl err \<Rightarrow> fail_with 500 ''Database error''
      | Inr rows \<Rightarrow> json (Subscription_list rows))"

subsection \<open>GET /api/analytics/dashboard\<close>

text \<open>Three queries, each in the callback of the one before; a fault flag for each.\<close>

definition get_dashboard :: "bool \<Rightarrow> bool \<Rightarrow> bool \<Rightarrow> string \<Rightarrow> store \<Rightarrow> response" where
  "get_dashboard fault1 fault2 fault3 week_ago s =
     (case db_get_creator_stats fault1 s of
        Inl err \<Rightarrow> fail_with 500 ''Database error''
      | Inr creatorStats \<Rightarrow>
          (case db_get_subscription_stats fault2 s of
             Inl err \<Rightarrow> fail_with 500 ''Database error''
           | Inr subStats \<Rightarrow>
               (case db_all_recent_activity fault3 week_ago s of
                  Inl err \<Rightarrow> fail_with 500 ''Database error''
                | Inr activity \<Rightarrow>
                    json (Stats \<lparr>stats_creators = creatorStats,
                                 stats_subscriptions = subStats,
                                 recent_activity = activity\<rparr>))))"

section \<open>Example data\<close>

text \<open>A store with one creator, and a request body that carries only a \<^verbatim>\<open>status\<close>.\<close>

definition demo_creator :: "sqlval creator" where
  "demo_creator =
     \<lparr>id_c = 1, display_name = SText ''Luna'', description = SText ''Tarot readings'',
      avatar_url = SNull, status = SText ''offline'', is_featured = SInt 0,
      is_paid_member = SInt 0, featured_priority = SInt 0, platforms = SText ''[]'',
      viewers = SInt 7, last_live_start = SNull, last_seen = SText ''2024-01-01 00:00:00'',
      created_at = SText ''2024-01-01 00:00:00'', updated_at = SText ''2024-01-01 00:00:00''\<rparr>"

definition demo_store :: store where
  "demo_store = \<lparr>creators = [demo_creator], subscriptions = [], analytics = []\<rparr>"


section \<open>The authentication gate\<close>

text \<open>
  Claim C6. On every token-gated route (the admin-gated ones included), a request without a
  bearer token (the middleware finds no token in the \<^verbatim>\<open>Authorization\<close> header, or an empty
  one) is answered 401 with an \<open>{error: string}\<close> body; a request whose token
  \<^verbatim>\<open>jwt.verify\<close> rejects (signature or expiry) is answered 403; and on an admin-gated
  route a request whose verified identity has a role other than \<open>admin\<close> and
  \<open>super_admin\<close> is answered 403.
\<close>

theorem gate_rejections:
  "route_gate r \<noteq> Open_route \<Longrightarrow>
     (\<not> js_truthy (bearer_token req) \<longrightarrow>
        run_gate jwt_verify r req
          = Inl \<lparr>http_status = 401, body = Error ''Access token required''\<rparr>) \<and>
     (js_truthy (bearer_token req) \<and> jwt_verify (js_toString (bearer_token req)) = None \<longrightarrow>
        run_gate jwt_verify r req
          = Inl \<lparr>http_status = 403, body = Error ''Invalid or expired token''\<rparr>) \<and>
     (route_gate r = Admin_gated \<and> js_truthy (bearer_token req) \<and>
      jwt_verify (js_toString (bearer_token req)) = Some u \<and>
      role u \<noteq> JStr ''admin'' \<and> role u \<noteq> JStr ''super_admin'' \<longrightarrow>
        run_gate jwt_verify r req
          = Inl \<lparr>http_status = 403, body = Error ''Admin access required''\<rparr>)"
  by (cases "route_gate r")
     (simp_all add: run_gate_def authenticateToken_def requireAdmin_def fail_with_def Let_def)

text \<open>
  The three rejections at concrete requests: no header on an admin route, a token the
  verifier rejects, and a verified identity with the role \<open>viewer\<close> on an admin route.
\<close>

theorem gate_rejections_witness:
  "run_gate (\<lambda>t. None) PUT_creator \<lparr>authorization = None\<rparr>
     = Inl \<lparr>http_status = 401, body = Error ''Access token required''\<rparr> \<and>
   run_gate (\<lambda>t. None) GET_creators \<lparr>authorization = Some ''Bearer abc''\<rparr>
     = Inl \<lparr>http_status = 403, body = Error ''Invalid or expired token''\<rparr> \<and>
   run_gate (\<lambda>t. Some \<lparr>user_id = JNum 2, username = JStr ''eve'', role = JStr ''viewer''\<rparr>)
       PUT_creator \<lparr>authorization = Some ''Bearer abc''\<rparr>
     = Inl \<lparr>http_status = 403, body = Error ''Admin access required''\<rparr>"
  using gate_rejections [of PUT_creator "\<lparr>authorization = None\<rparr>" "\<lambda>t. None"]
        gate_rejections [of GET_creators "\<lparr>authorization = Some ''Bearer abc''\<rparr>" "\<lambda>t. None"]
        gate_rejections [of PUT_creator "\<lparr>authorization = Some ''Bearer abc''\<rparr>"
           "\<lambda>t. Some \<lparr>user_id = JNum 2, username = JStr ''eve'', role = JStr ''viewer''\<rparr>"
           "\<lparr>user_id = JNum 2, username = JStr ''eve'', role = JStr ''viewer''\<rparr>"]
  by (simp add: bearer_token_def)

section \<open>The dashboard\<close>

text \<open>
  Claim C1 says that on a store with no rows the dashboard answers zero for every aggregate.
  The handler does answer, and the two \<^verbatim>\<open>COUNT(*)\<close> fields are 0 and the list of event-type
  counts is empty; but every field computed with \<^verbatim>\<open>SUM\<close> is NULL, since \<^verbatim>\<open>SUM\<close> over no
  rows is NULL and the queries do not guard it.
\<close>

theorem dashboard_empty_store:
  "get_dashboard False False False week_ago \<lparr>creators = [], subscriptions = [], analytics = []\<rparr>
     = \<lparr>http_status = 200,
        body = Stats
          \<lparr>stats_creators =
             \<lparr>total_creators = SInt 0, live_creators = SNull, featured_creators = SNull,
              paid_members = SNull, total_viewers = SNull\<rparr>,
           stats_subscriptions =
             \<lparr>total_subscriptions = SInt 0, active_subscriptions = SNull,
              monthly_revenue = SNull\<rparr>,
           recent_activity = []\<rparr>\<rparr>"
  by (simp add: get_dashboard_def db_get_creator_stats_def db_get_subscription_stats_def
        db_all_recent_activity_def sql_count_def sql_sum_def json_def)

section \<open>The subscription list\<close>

lemma prepare_subscriptions_query:
  "prepare subscriptions_query_refs = Some (SQLITE_ERROR ''no such column: c.email'')"
  by (simp add: prepare_def subscriptions_query_refs_def subscriptions_query_select_def
        alias_columns_def creators_columns_def subscriptions_columns_def)

text \<open>
  Claim C2 says that the subscription list succeeds on every store. Its query selects
  \<^verbatim>\<open>c.email\<close>, and the \<^verbatim>\<open>creators\<close> table has no such column: SQLite rejects the
  statement, and the handler answers 500 whatever the store holds.
\<close>

theorem get_subscriptions_fails:
  "get_subscriptions fault s = \<lparr>http_status = 500, body = Error ''Database error''\<rparr>"
  by (simp add: get_subscriptions_def db_all_subscriptions_def prepare_subscriptions_query
        fail_with_def)

section \<open>Updates of a creator row\<close>

lemma exec_update_no_display_name:
  "Display_name \<notin> set (map fst sets) \<Longrightarrow>
   exec_update now sets i rows =
     Inr (length (filter (\<lambda>r. id_c r = i) rows),
          map (\<lambda>r. if id_c r = i then apply_sets now sets r else r) rows)"
  by (simp add: exec_update_def Let_def)

lemma map_absent_id:
  "i \<notin> id_c ` set rows \<Longrightarrow> map (\<lambda>r. if id_c r = i then f r else r) rows = rows"
  by (induction rows) auto




subsection \<open>POST /api/creators/:id/status\<close>


lemma status_sets_no_display_name:
  "Display_name \<notin> set (map fst (post_creator_status_sets b))"
  by (auto simp: post_creator_status_sets_def)

lemma db_run_update_status:
  "db_run_update False now (post_creator_status_sets b) i s =
     (Inr (length (filter (\<lambda>r. id_c r = i) (creators s))),
      s\<lparr>creators :=
          map (\<lambda>r. if id_c r = i then apply_sets now (post_creator_status_sets b) r else r)
            (creators s)\<rparr>)"
  by (simp add: db_run_update_def exec_update_no_display_name [OF status_sets_no_display_name])





text \<open>
  Claim C7. For every id, in the store or not, and every status: when the \<^verbatim>\<open>UPDATE\<close> of the
  status handler does not fail, the handler answers 200 whether the insert of the analytics
  event then fails or not; when the insert does not fail, exactly one event is appended, of
  type \<open>status_change\<close>, with the payload \<^verbatim>\<open>JSON.stringify({ status, viewers })\<close> and the id
  of the request; when the insert fails, no event is appended and the answer is the same. The
  event is appended also when the update matched no row and so left the creators as they were.
\<close>

theorem post_creator_status_event:
  "fst (post_creator_status JSON_stringify now False fault' i b s)
     = \<lparr>http_status = 200, body = Message ''Status updated successfully''\<rparr> \<and>
   analytics (snd (post_creator_status JSON_stringify now False False i b s))
     = analytics s @
       [\<lparr>id_a = next_id_a (analytics s),
         event_type = SText ''status_change'',
         event_data =
           SText (JSON_stringify (JObj [(''status'', status_p b), (''viewers'', viewers_p b)])),
         creator_id_a = SInt i,
         timestamp = SText now\<rparr>] \<and>
   analytics (snd (post_creator_status JSON_stringify now False True i b s)) = analytics s \<and>
   (i \<notin> id_c ` set (creators s) \<longrightarrow>
      creators (snd (post_creator_status JSON_stringify now False fault' i b s)) = creators s)"
  by (auto simp: post_creator_status_def db_run_update_status json_def
        db_run_insert_analytics_def map_absent_id)

text \<open>
  A status change for the id 999, which the store does not have: the answer is 200 and the
  event is there; and the answer is 200 as well when the insert fails.
\<close>

theorem post_creator_status_event_witness:
  "post_creator_status (\<lambda>v. ''{}'') ''2024-05-01 12:00:00'' False False 999
      \<lparr>status_p = JStr ''live'', viewers_p = JNum 10, live_start = JUndefined\<rparr> demo_store
     = (\<lparr>http_status = 200, body = Message ''Status updated successfully''\<rparr>,
        demo_store\<lparr>analytics :=
          [\<lparr>id_a = 1, event_type = SText ''status_change'', event_data = SText ''{}'',
            creator_id_a = SInt 999, timestamp = SText ''2024-05-01 12:00:00''\<rparr>]\<rparr>) \<and>
   post_creator_status (\<lambda>v. ''{}'') ''2024-05-01 12:00:00'' False True 999
      \<lparr>status_p = JStr ''live'', viewers_p = JNum 10, live_start = JUndefined\<rparr> demo_store
     = (\<lparr>http_status = 200, body = Message ''Status updated successfully''\<rparr>, demo_store)"
proof -
  let ?b = "\<lparr>status_p = JStr ''live'', viewers_p = JNum 10, live_start = JUndefined\<rparr>"
  have absent: "999 \<notin> id_c ` set (creators demo_store)"
    by (simp add: demo_store_def demo_creator_def)
  note ok = post_creator_status_event [of "\<lambda>v. ''{}''" "''2024-05-01 12:00:00''" False 999 ?b demo_store]
  note ko = post_creator_status_event [of "\<lambda>v. ''{}''" "''2024-05-01 12:00:00''" True 999 ?b demo_store]
  have others: "subscriptions (snd (post_creator_status f n False g 999 ?b demo_store)) = []" for f n g
    by (simp add: post_creator_status_def db_run_update_status db_run_insert_analytics_def
          demo_store_def)
  show ?thesis
    using ok ko absent others
    by (auto simp: prod_eq_iff next_id_a_def demo_store_def intro!: store.equality)
qed

subsection \<open>PUT /api/creators/:id\<close>

















subsection \<open>POST /api/creators/bulk-status\<close>














section \<open>The platforms of a creator that is read\<close>

lemma platforms_fetch_row: "platforms (fetch_row r) = to_js (platforms r)"
  by (simp add: fetch_row_def)

text \<open>
  Stored text that is not empty and that \<^verbatim>\<open>JSON.parse\<close> rejects is replaced by the empty
  array by both variants of the parsing step, so on all three read paths.
\<close>

lemma unparsable_platforms_replaced:
  "platforms r = SText t \<Longrightarrow> t \<noteq> [] \<Longrightarrow> JSON_parse t = None \<Longrightarrow>
     parse_platforms_or_empty JSON_parse (fetch_row r) = (fetch_row r)\<lparr>platforms := JArr []\<rparr> \<and>
     parse_platforms_if_set JSON_parse (fetch_row r) = (fetch_row r)\<lparr>platforms := JArr []\<rparr>"
  by (simp add: parse_platforms_or_empty_def parse_platforms_if_set_def platforms_fetch_row)

text \<open>
  Claim C8 says that a stored \<open>platforms\<close> string that fails to deserialize is returned as
  the empty sequence by the list, by the single read and by the export. The empty string fails
  to deserialize (\<^verbatim>\<open>JSON.parse('')\<close> throws) but is falsy, so the single read and the export
  never try to parse it and, having no \<^verbatim>\<open>else\<close>, return it as it is; the list returns the
  empty array.
\<close>

theorem empty_platforms_text_kept:
  "get_creator JSON_parse False (id_c r)
      \<lparr>creators = [r\<lparr>platforms := SText []\<rparr>], subscriptions = xs, analytics = es\<rparr>
     = \<lparr>http_status = 200, body = Creator_row ((fetch_row r)\<lparr>platforms := JStr []\<rparr>)\<rparr> \<and>
   export_creators JSON_parse (Inr [r\<lparr>platforms := SText []\<rparr>])
     = \<lparr>http_status = 200, body = Creator_list [(fetch_row r)\<lparr>platforms := JStr []\<rparr>]\<rparr> \<and>
   get_creators JSON_parse (Inr [r\<lparr>platforms := SText []\<rparr>])
     = \<lparr>http_status = 200, body = Creator_list [(fetch_row r)\<lparr>platforms := JArr []\<rparr>]\<rparr>"
  by (simp add: get_creator_def export_creators_def get_creators_def db_get_creator_def json_def
        parse_platforms_or_empty_def parse_platforms_if_set_def fetch_row_def)

text \<open>
  Claim C9, as amended. Let \<open>r\<close> be the row the single read finds for an id, and let the
  query of the list return \<open>r\<close> among its rows. If the \<open>platforms\<close> cell of \<open>r\<close> is NULL, the
  single read returns \<open>r\<close> with \<open>platforms\<close> \<open>null\<close> and the list returns it with
  \<open>platforms\<close> the empty array. If the cell is the empty string, the single read returns \<open>r\<close>
  with \<open>platforms\<close> the empty string, and the list again with the empty array. The two reads
  disagree in both cases.
\<close>

theorem null_or_empty_platforms:
  "find (\<lambda>c. id_c c = i) (creators s) = Some r \<Longrightarrow>
     (platforms r = SNull \<longrightarrow>
        get_creator JSON_parse False i s
          = \<lparr>http_status = 200, body = Creator_row ((fetch_row r)\<lparr>platforms := JNull\<rparr>)\<rparr> \<and>
        get_creators JSON_parse (Inr (before @ r # after))
          = \<lparr>http_status = 200,
             body = Creator_list
               (map (\<lambda>c. parse_platforms_or_empty JSON_parse (fetch_row c)) before @
                (fetch_row r)\<lparr>platforms := JArr []\<rparr> #
                map (\<lambda>c. parse_platforms_or_empty JSON_parse (fetch_row c)) after)\<rparr>) \<and>
     (platforms r = SText [] \<longrightarrow>
        get_creator JSON_parse False i s
          = \<lparr>http_status = 200, body = Creator_row ((fetch_row r)\<lparr>platforms := JStr []\<rparr>)\<rparr> \<and>
        get_creators JSON_parse (Inr (before @ r # after))
          = \<lparr>http_status = 200,
             body = Creator_list
               (map (\<lambda>c. parse_platforms_or_empty JSON_parse (fetch_row c)) before @
                (fetch_row r)\<lparr>platforms := JArr []\<rparr> #
                map (\<lambda>c. parse_platforms_or_empty JSON_parse (fetch_row c)) after)\<rparr>)"
  by (simp add: get_creator_def get_creators_def db_get_creator_def json_def
        parse_platforms_or_empty_def parse_platforms_if_set_def fetch_row_def)

text \<open>The example creator with a NULL cell, and with an empty one.\<close>

theorem null_or_empty_platforms_witness:
  "get_creator (\<lambda>t. None) False 1
      \<lparr>creators = [demo_creator\<lparr>platforms := SNull\<rparr>], subscriptions = [], analytics = []\<rparr>
     = \<lparr>http_status = 200, body = Creator_row ((fetch_row demo_creator)\<lparr>platforms := JNull\<rparr>)\<rparr> \<and>
   get_creators (\<lambda>t. None) (Inr [demo_creator\<lparr>platforms := SNull\<rparr>])
     = \<lparr>http_status = 200,
        body = Creator_list [(fetch_row demo_creator)\<lparr>platforms := JArr []\<rparr>]\<rparr> \<and>
   get_creator (\<lambda>t. None) False 1
      \<lparr>creators = [demo_creator\<lparr>platforms := SText []\<rparr>], subscriptions = [], analytics = []\<rparr>
     = \<lparr>http_status = 200, body = Creator_row ((fetch_row demo_creator)\<lparr>platforms := JStr []\<rparr>)\<rparr> \<and>
   get_creators (\<lambda>t. None) (Inr [demo_creator\<lparr>platforms := SText []\<rparr>])
     = \<lparr>http_status = 200,
        body = Creator_list [(fetch_row demo_creator)\<lparr>platforms := JArr []\<rparr>]\<rparr>"
  using null_or_empty_platforms [of 1
          "\<lparr>creators = [demo_creator\<lparr>platforms := SNull\<rparr>], subscriptions = [], analytics = []\<rparr>"
          "demo_creator\<lparr>platforms := SNull\<rparr>" "\<lambda>t. None" "[]" "[]"]
        null_or_empty_platforms [of 1
          "\<lparr>creators = [demo_creator\<lparr>platforms := SText []\<rparr>], subscriptions = [], analytics = []\<rparr>"
          "demo_creator\<lparr>platforms := SText []\<rparr>" "\<lambda>t. None" "[]" "[]"]
  by (simp add: demo_creator_def fetch_row_def)

text \<open>
  Claim C9 as stated fails for the empty cell: the single read returns the empty string there,
  which is not \<open>null\<close>.
\<close>

theorem get_creator_empty_platforms_counterexample:
  "platforms (demo_creator\<lparr>platforms := SText []\<rparr>) = SText [] \<and>
   get_creator (\<lambda>t. None) False 1
      \<lparr>creators = [demo_creator\<lparr>platforms := SText []\<rparr>], subscriptions = [], analytics = []\<rparr>
     = \<lparr>http_status = 200, body = Creator_row ((fetch_row demo_creator)\<lparr>platforms := JStr []\<rparr>)\<rparr> \<and>
   platforms ((fetch_row demo_creator)\<lparr>platforms := JStr []\<rparr>) \<noteq> JNull"
  by (simp add: get_creator_def db_get_creator_def json_def parse_platforms_if_set_def
        fetch_row_def demo_creator_def)

end
